theory Spec2Isabelle
  imports Main "HOL-Library.Sublist"
begin

section \<open>Strings\<close>

text \<open>
  A Python \<open>str\<close> is represented by the bytes of its UTF-8 encoding, as a \<open>string\<close>.
  Searching, replacing and prefix tests with the ASCII patterns of the program give the
  same result on the encoding as on the code points. The library functions the program
  calls (\<open>str.startswith\<close>, \<open>str.replace\<close>, \<open>str.strip\<close>, \<open>int\<close>,
  \<open>urllib.parse.unquote\<close>) are written out below.
\<close>

datatype error = AttributeError | TypeError | KeyError | IndexError | ValueError

definition bv :: "char \<Rightarrow> nat" where
  "bv c = of_char c"

definition is_ascii :: "char \<Rightarrow> bool" where
  "is_ascii c = (bv c < 128)"

definition startswith :: "string \<Rightarrow> string \<Rightarrow> bool" where
  "startswith s p = (take (length p) s = p)"

text \<open>
  \<open>s.replace(old, new)\<close>: every occurrence of \<open>old\<close>, found from left to right
  without overlap, is replaced; an empty \<open>old\<close> matches before every character and at
  the end.
\<close>

function replace :: "string \<Rightarrow> string \<Rightarrow> string \<Rightarrow> string" where
  "replace old new [] = (if old = [] then new else [])"
| "replace old new (c # cs) =
     (if old = [] then new @ c # replace old new cs
      else if startswith (c # cs) old
        then new @ replace old new (drop (length old) (c # cs))
      else c # replace old new cs)"
  by pat_completeness auto
termination
  by (relation "measure (\<lambda>(old, new, s). length s)") auto

text \<open>
  \<open>s.strip()\<close> removes the white space of Unicode at both ends: U+0009 to U+000D,
  U+001C to U+0020, U+0085, U+00A0, U+1680, U+2000 to U+200A, U+2028, U+2029, U+202F,
  U+205F and U+3000, here in their UTF-8 encodings.
\<close>

definition whitespace :: "string list" where
  "whitespace =
     map (\<lambda>c. [c]) [CHR 0x09, CHR 0x0A, CHR 0x0B, CHR 0x0C, CHR 0x0D,
                    CHR 0x1C, CHR 0x1D, CHR 0x1E, CHR 0x1F, CHR 0x20] @
     [[CHR 0xC2, CHR 0x85], [CHR 0xC2, CHR 0xA0], [CHR 0xE1, CHR 0x9A, CHR 0x80]] @
     map (\<lambda>c. [CHR 0xE2, CHR 0x80, c])
       [CHR 0x80, CHR 0x81, CHR 0x82, CHR 0x83, CHR 0x84, CHR 0x85, CHR 0x86, CHR 0x87,
        CHR 0x88, CHR 0x89, CHR 0x8A, CHR 0xA8, CHR 0xA9, CHR 0xAF] @
     [[CHR 0xE2, CHR 0x81, CHR 0x9F], [CHR 0xE3, CHR 0x80, CHR 0x80]]"

definition ws_len :: "string list \<Rightarrow> string \<Rightarrow> nat" where
  "ws_len ws s = (case find (startswith s) ws of None \<Rightarrow> 0 | Some w \<Rightarrow> length w)"

fun strip_front :: "string list \<Rightarrow> string \<Rightarrow> string" where
  "strip_front ws [] = []"
| "strip_front ws (c # cs) =
     (if ws_len ws (c # cs) = 0 then c # cs
      else strip_front ws (drop (ws_len ws (c # cs) - 1) cs))"

definition lstrip :: "string \<Rightarrow> string" where
  "lstrip s = strip_front whitespace s"

definition rstrip :: "string \<Rightarrow> string" where
  "rstrip s = rev (strip_front (map rev whitespace) (rev s))"

definition strip :: "string \<Rightarrow> string" where
  "strip s = rstrip (lstrip s)"

definition is_digit :: "char \<Rightarrow> bool" where
  "is_digit c = (48 \<le> bv c \<and> bv c \<le> 57)"

definition digit_val :: "char \<Rightarrow> nat" where
  "digit_val c = bv c - 48"

subsection \<open>Percent-decoding\<close>

text \<open>
  \<open>urllib.parse.unquote(s)\<close> with its defaults (\<open>encoding='utf-8'\<close>,
  \<open>errors='replace'\<close>): a string without \<open>%\<close> is returned as it is; otherwise every
  maximal run of ASCII characters has its \<open>%xx\<close> escapes turned into bytes and is then
  decoded as UTF-8, an ill-formed sequence giving U+FFFD; characters outside ASCII are
  kept.
\<close>

definition is_hex :: "char \<Rightarrow> bool" where
  "is_hex c = (c \<in> set ''0123456789ABCDEFabcdef'')"

definition hex_val :: "char \<Rightarrow> nat" where
  "hex_val c =
     (if is_digit c then bv c - 48
      else if 97 \<le> bv c then bv c - 87
      else bv c - 55)"

definition hex_byte :: "char \<Rightarrow> char \<Rightarrow> char" where
  "hex_byte a b = char_of (16 * hex_val a + hex_val b)"

fun unquote_to_bytes :: "string \<Rightarrow> string" where
  "unquote_to_bytes (c # a # b # rest) =
     (if c = CHR ''%'' \<and> is_hex a \<and> is_hex b
      then hex_byte a b # unquote_to_bytes rest
      else c # unquote_to_bytes (a # b # rest))"
| "unquote_to_bytes (c # cs) = c # unquote_to_bytes cs"
| "unquote_to_bytes [] = []"

definition is_cont :: "char \<Rightarrow> bool" where
  "is_cont c = (128 \<le> bv c \<and> bv c < 192)"

text \<open>
  One step of the UTF-8 decoder at lead byte \<open>c\<close> followed by \<open>cs\<close>: whether a
  well-formed sequence starts here, and how many of the following bytes belong to it (for
  an ill-formed one: to the part that one U+FFFD replaces).
\<close>

definition utf8_step :: "char \<Rightarrow> string \<Rightarrow> bool \<times> nat" where
  "utf8_step c cs =
     (if bv c < 0x80 then (True, 0)
      else if bv c < 0xC2 then (False, 0)
      else if bv c < 0xE0 then
        (case cs of [] \<Rightarrow> (False, 0)
         | c2 # _ \<Rightarrow> if is_cont c2 then (True, 1) else (False, 0))
      else if bv c < 0xF0 then
        (case cs of [] \<Rightarrow> (False, 0)
         | c2 # r \<Rightarrow>
             if \<not> is_cont c2 \<or> (if bv c2 < 0xA0 then bv c = 0xE0 else bv c = 0xED)
             then (False, 0)
             else (case r of [] \<Rightarrow> (False, 1)
                   | c3 # _ \<Rightarrow> if is_cont c3 then (True, 2) else (False, 1)))
      else if bv c < 0xF5 then
        (case cs of [] \<Rightarrow> (False, 0)
         | c2 # r \<Rightarrow>
             if \<not> is_cont c2 \<or> (if bv c2 < 0x90 then bv c = 0xF0 else bv c = 0xF4)
             then (False, 0)
             else (case r of [] \<Rightarrow> (False, 1)
                   | c3 # r' \<Rightarrow>
                       if \<not> is_cont c3 then (False, 1)
                       else (case r' of [] \<Rightarrow> (False, 2)
                             | c4 # _ \<Rightarrow> if is_cont c4 then (True, 3) else (False, 2))))
      else (False, 0))"

definition replacement_char :: string where
  "replacement_char = [CHR 0xEF, CHR 0xBF, CHR 0xBD]"

fun utf8_replace :: "string \<Rightarrow> string" where
  "utf8_replace [] = []"
| "utf8_replace (c # cs) =
     (if fst (utf8_step c cs) then c # take (snd (utf8_step c cs)) cs else replacement_char)
     @ utf8_replace (drop (snd (utf8_step c cs)) cs)"

function unquoted_parts :: "string \<Rightarrow> string" where
  "unquoted_parts [] = []"
| "unquoted_parts (c # cs) =
     (if is_ascii c
      then utf8_replace (unquote_to_bytes (c # takeWhile is_ascii cs))
           @ unquoted_parts (dropWhile is_ascii cs)
      else c # unquoted_parts cs)"
  by pat_completeness auto
termination
  by (relation "measure length") (auto simp: length_dropWhile_le less_Suc_eq_le)

definition unquote :: "string \<Rightarrow> string" where
  "unquote s = (if CHR ''%'' \<notin> set s then s else unquoted_parts s)"

subsection \<open>Reading integers\<close>

text \<open>
  \<open>int(s)\<close> in base ten, as CPython reads it. A string with a character outside ASCII is
  first rewritten: every white-space character of Unicode outside ASCII becomes a space,
  every decimal digit of Unicode (Unicode 14.0, the tables of CPython 3.11) becomes the
  ASCII digit of its value, and any other character outside ASCII becomes \<open>?\<close>. Then the
  white space of C (tab, line feed, vertical tab, form feed, carriage return, space) is
  dropped at both ends, a sign may come first, and single underscores may stand between
  digits; anything else raises \<open>ValueError\<close>. The characters U+001C to U+001F, which
  \<open>str.strip\<close> removes, are not white space here. The interpreter's configurable limit
  on the number of digits (4300 by default) is left out: integers are unbounded.
\<close>

definition code_point :: "string \<Rightarrow> nat" where
  "code_point bs =
     (case bs of
        [a] \<Rightarrow> bv a
      | [a, b] \<Rightarrow> (bv a - 0xC0) * 64 + (bv b - 0x80)
      | [a, b, c] \<Rightarrow> (bv a - 0xE0) * 4096 + (bv b - 0x80) * 64 + (bv c - 0x80)
      | [a, b, c, d] \<Rightarrow>
          (bv a - 0xF0) * 262144 + (bv b - 0x80) * 4096 + (bv c - 0x80) * 64 + (bv d - 0x80)
      | _ \<Rightarrow> 0xFFFD)"

text \<open>
  The code points of a string. Bytes that are not well-formed UTF-8 encode no \<open>str\<close>;
  they are read as U+FFFD.
\<close>

fun utf8_decode :: "string \<Rightarrow> nat list" where
  "utf8_decode [] = []"
| "utf8_decode (c # cs) =
     (if fst (utf8_step c cs) then code_point (c # take (snd (utf8_step c cs)) cs)
      else 0xFFFD)
     # utf8_decode (drop (snd (utf8_step c cs)) cs)"

definition uni_space :: "nat \<Rightarrow> bool" where
  "uni_space cp =
     (cp \<in> set [0x85, 0xA0, 0x1680, 0x2028, 0x2029, 0x202F, 0x205F, 0x3000]
      \<or> (0x2000 \<le> cp \<and> cp \<le> 0x200A))"

text \<open>The digit zero of every run of ten decimal digits outside ASCII.\<close>

definition decimal_zeros :: "nat list" where
  "decimal_zeros =
     [0x660, 0x6F0, 0x7C0, 0x966, 0x9E6, 0xA66, 0xAE6, 0xB66, 0xBE6, 0xC66, 0xCE6, 0xD66,
      0xDE6, 0xE50, 0xED0, 0xF20, 0x1040, 0x1090, 0x17E0, 0x1810, 0x1946, 0x19D0, 0x1A80,
      0x1A90, 0x1B50, 0x1BB0, 0x1C40, 0x1C50, 0xA620, 0xA8D0, 0xA900, 0xA9D0, 0xA9F0,
      0xAA50, 0xABF0, 0xFF10, 0x104A0, 0x10D30, 0x11066, 0x110F0, 0x11136, 0x111D0,
      0x112F0, 0x11450, 0x114D0, 0x11650, 0x116C0, 0x11730, 0x118E0, 0x11950, 0x11C50,
      0x11D50, 0x11DA0, 0x16A60, 0x16AC0, 0x16B50, 0x1D7CE, 0x1D7D8, 0x1D7E2, 0x1D7EC,
      0x1D7F6, 0x1E140, 0x1E2F0, 0x1E950, 0x1FBF0]"

definition uni_decimal :: "nat \<Rightarrow> nat option" where
  "uni_decimal cp =
     map_option (\<lambda>z. cp - z) (find (\<lambda>z. z \<le> cp \<and> cp < z + 10) decimal_zeros)"

definition ascii_of :: "nat \<Rightarrow> char" where
  "ascii_of cp =
     (if cp < 127 then char_of cp
      else if uni_space cp then CHR '' ''
      else (case uni_decimal cp of Some d \<Rightarrow> char_of (48 + d) | None \<Rightarrow> CHR ''?''))"

definition to_ascii :: "string \<Rightarrow> string" where
  "to_ascii s = (if list_all is_ascii s then s else map ascii_of (utf8_decode s))"

definition c_whitespace :: "string list" where
  "c_whitespace =
     map (\<lambda>c. [c]) [CHR 0x09, CHR 0x0A, CHR 0x0B, CHR 0x0C, CHR 0x0D, CHR 0x20]"

definition c_strip :: "string \<Rightarrow> string" where
  "c_strip s = rev (strip_front c_whitespace (rev (strip_front c_whitespace s)))"

fun digits_ok :: "string \<Rightarrow> bool" where
  "digits_ok [] = False"
| "digits_ok [c] = is_digit c"
| "digits_ok (c # d # cs) =
     (is_digit c \<and> (if d = CHR ''_'' then digits_ok cs else digits_ok (d # cs)))"

definition decimal :: "string \<Rightarrow> nat" where
  "decimal ds = foldl (\<lambda>n c. 10 * n + digit_val c) 0 ds"

definition py_int :: "string \<Rightarrow> error + int" where
  "py_int s =
     (let t = c_strip (to_ascii s);
          neg = (t \<noteq> [] \<and> hd t = CHR ''-'');
          body = (if t \<noteq> [] \<and> (hd t = CHR ''-'' \<or> hd t = CHR ''+'') then tl t else t)
      in if digits_ok body
         then Inr ((if neg then - 1 else 1) *
                   int (decimal (filter (\<lambda>c. c \<noteq> CHR ''_'') body)))
         else Inl ValueError)"

section \<open>Normalizers\<close>

definition DOMAIN :: string where
  "DOMAIN = ''https://nitter.net''"

definition TWITTER_IMG_DOMAIN :: string where
  "TWITTER_IMG_DOMAIN = ''https://pbs.twimg.com''"

definition username_cleaner :: "string \<Rightarrow> string" where
  "username_cleaner username = replace ''@'' '''' username"

text \<open>
  \<open>stat_cleaner\<close> tests its argument for truth: \<open>None\<close> and the empty string are
  false.
\<close>

definition stat_cleaner :: "string option \<Rightarrow> error + int" where
  "stat_cleaner stat =
     (case stat of None \<Rightarrow> Inr 0
      | Some s \<Rightarrow> if s \<noteq> [] then py_int (replace '','' '''' s) else Inr 0)"

definition convert_nitter_image_to_twitter :: "string \<Rightarrow> string" where
  "convert_nitter_image_to_twitter nitter_url =
     (if startswith nitter_url (DOMAIN @ ''/pic/'')
      then unquote (replace (DOMAIN @ ''/pic/'') (TWITTER_IMG_DOMAIN @ ''/'') nitter_url)
      else nitter_url)"

section \<open>Documents and selectors\<close>

text \<open>
  The tree that \<open>BeautifulSoup(html, 'html.parser')\<close> builds: an element has a name,
  the list of its classes, its other attributes and its children; a \<open>Text\<close> node is a
  string that \<open>.text\<close> collects, a \<open>Comment\<close> one that it skips. The parser itself is
  not modelled: the extractors take the top-level nodes of the parsed page.
\<close>

datatype node =
    Element string "string list" "(string \<times> string) list" "node list"
  | Text string
  | Comment string

text \<open>
  A tag as the program holds it: the element, with its position among the siblings of
  the same name, followed by its ancestors, the nearest first. The last entry is the
  \<open>BeautifulSoup\<close> object.
\<close>

type_synonym tag = "(node \<times> nat) list"

definition BeautifulSoup :: "node list \<Rightarrow> tag" where
  "BeautifulSoup html = [(Element ''[document]'' [] [] html, 1)]"

fun tag_names :: "node \<Rightarrow> string list" where
  "tag_names (Element nm cl at kids) = [nm]"
| "tag_names (Text s) = []"
| "tag_names (Comment s) = []"

fun children_of :: "node \<Rightarrow> node list" where
  "children_of (Element nm cl at kids) = kids"
| "children_of (Text s) = []"
| "children_of (Comment s) = []"

fun attrs_of :: "node \<Rightarrow> (string \<times> string) list" where
  "attrs_of (Element nm cl at kids) = at"
| "attrs_of (Text s) = []"
| "attrs_of (Comment s) = []"

fun text_of :: "node \<Rightarrow> string" and texts :: "node list \<Rightarrow> string" where
  "text_of (Element nm cl at kids) = texts kids"
| "text_of (Text s) = s"
| "text_of (Comment s) = []"
| "texts [] = []"
| "texts (k # ks) = text_of k @ texts ks"

text \<open>All elements below a tag, in document order, each with its ancestors.\<close>

fun descendants_node :: "tag \<Rightarrow> nat \<Rightarrow> node \<Rightarrow> tag list"
  and descendants_list :: "tag \<Rightarrow> string list \<Rightarrow> node list \<Rightarrow> tag list" where
  "descendants_node ctx i (Element nm cl at kids) =
     ((Element nm cl at kids, i) # ctx)
     # descendants_list ((Element nm cl at kids, i) # ctx) [] kids"
| "descendants_node ctx i (Text s) = []"
| "descendants_node ctx i (Comment s) = []"
| "descendants_list ctx seen [] = []"
| "descendants_list ctx seen (k # ks) =
     descendants_node ctx (Suc (length (filter (\<lambda>n. [n] = tag_names k) seen))) k
     @ descendants_list ctx (seen @ tag_names k) ks"

text \<open>
  The CSS selectors of the program are compound selectors joined by the descendant
  combinator. A compound selector names a tag or not, lists classes, and may carry
  \<open>:nth-of-type(n)\<close>.
\<close>

datatype compound = Compound "string option" "string list" "nat option"

type_synonym selector = "compound list"

fun matches_compound :: "compound \<Rightarrow> node \<times> nat \<Rightarrow> bool" where
  "matches_compound (Compound t cs n) (Element nm cl at kids, i) =
     ((case t of None \<Rightarrow> True | Some x \<Rightarrow> x = nm)
      \<and> list_all (\<lambda>c. c \<in> set cl) cs
      \<and> (case n of None \<Rightarrow> True | Some k \<Rightarrow> i = k))"
| "matches_compound c (Text s, i) = False"
| "matches_compound c (Comment s, i) = False"

fun matches_above :: "compound list \<Rightarrow> tag \<Rightarrow> bool" where
  "matches_above [] anc = True"
| "matches_above (c # cs) [] = False"
| "matches_above (c # cs) (a # anc) =
     ((matches_compound c a \<and> matches_above cs anc) \<or> matches_above (c # cs) anc)"

definition matches :: "selector \<Rightarrow> tag \<Rightarrow> bool" where
  "matches sel t =
     (case rev sel of [] \<Rightarrow> False
      | c # cs \<Rightarrow> (case t of [] \<Rightarrow> False
                  | e # anc \<Rightarrow> matches_compound c e \<and> matches_above cs anc))"

definition select :: "selector \<Rightarrow> tag \<Rightarrow> tag list" where
  "select sel t =
     (case t of [] \<Rightarrow> []
      | e # anc \<Rightarrow> filter (matches sel) (descendants_list t [] (children_of (fst e))))"

definition select_one :: "selector \<Rightarrow> tag \<Rightarrow> tag option" where
  "select_one sel t = (case select sel t of [] \<Rightarrow> None | x # xs \<Rightarrow> Some x)"

definition tag_text :: "tag \<Rightarrow> string" where
  "tag_text t = (case t of [] \<Rightarrow> [] | e # anc \<Rightarrow> text_of (fst e))"

definition parent :: "tag \<Rightarrow> tag option" where
  "parent t = (case t of e # a # anc \<Rightarrow> Some (a # anc) | _ \<Rightarrow> None)"

subsection \<open>Failing accesses\<close>

definition bindE :: "error + 'a \<Rightarrow> ('a \<Rightarrow> error + 'b) \<Rightarrow> error + 'b" where
  "bindE m f = (case m of Inl e \<Rightarrow> Inl e | Inr x \<Rightarrow> f x)"

fun mapE :: "('a \<Rightarrow> error + 'b) \<Rightarrow> 'a list \<Rightarrow> error + 'b list" where
  "mapE f [] = Inr []"
| "mapE f (x # xs) = bindE (f x) (\<lambda>y. bindE (mapE f xs) (\<lambda>ys. Inr (y # ys)))"

text \<open>\<open>x.text\<close> where \<open>x\<close> may be \<open>None\<close>.\<close>

definition text_attr :: "tag option \<Rightarrow> error + string" where
  "text_attr x = (case x of None \<Rightarrow> Inl AttributeError | Some t \<Rightarrow> Inr (tag_text t))"

text \<open>\<open>x[key]\<close> where \<open>x\<close> may be \<open>None\<close>.\<close>

definition getitem :: "tag option \<Rightarrow> string \<Rightarrow> error + string" where
  "getitem x key =
     (case x of None \<Rightarrow> Inl TypeError
      | Some t \<Rightarrow> (case t of [] \<Rightarrow> Inl KeyError
                  | e # anc \<Rightarrow> (case map_of (attrs_of (fst e)) key of
                                 None \<Rightarrow> Inl KeyError | Some v \<Rightarrow> Inr v)))"

text \<open>\<open>xs[0]\<close>.\<close>

definition item0 :: "'a list \<Rightarrow> error + 'a" where
  "item0 xs = (if xs = [] then Inl IndexError else Inr (hd xs))"

section \<open>Extraction\<close>

text \<open>The dictionaries the extractors build, one record for each set of keys.\<close>

record profile_record =
  p_full_name :: string
  p_username :: string
  p_bio :: string
  p_location :: string
  p_join_date :: string
  p_tweets :: int
  p_following :: int
  p_followers :: int
  p_likes :: int
  p_profile_image :: string
  p_banner_image :: string

record timeline_entry =
  t_content :: string
  t_date :: string
  t_likes :: string
  t_comments :: string
  t_retweets :: string
  t_tweet_link :: string
  t_images :: "string list"
  t_retweeted_by :: "string option"
  t_is_retweet :: bool
  t_is_reply :: bool
  t_replying_to :: "string option"

record profile_bundle =
  profile :: profile_record
  tweets :: "timeline_entry list"
  media :: "string list"

record search_user =
  u_profile_image_url :: string
  u_full_name :: string
  u_username :: string
  u_bio :: string

definition cls :: "string \<Rightarrow> compound" where
  "cls c = Compound None [c] None"

definition elem :: "string \<Rightarrow> compound" where
  "elem n = Compound (Some n) [] None"

definition sel_profile_card_fullname :: selector where
  "sel_profile_card_fullname = [cls ''profile-card-fullname'']"

definition sel_profile_card_username :: selector where
  "sel_profile_card_username = [cls ''profile-card-username'']"

definition sel_profile_bio :: selector where
  "sel_profile_bio = [cls ''profile-bio'', elem ''p'']"

definition sel_profile_location :: selector where
  "sel_profile_location = [cls ''profile-location'', Compound (Some ''span'') [] (Some 2)]"

definition sel_profile_joindate :: selector where
  "sel_profile_joindate = [cls ''profile-joindate'', elem ''span'']"

definition sel_stat :: "string \<Rightarrow> selector" where
  "sel_stat c = [cls c, cls ''profile-stat-num'']"

definition sel_profile_card_avatar :: selector where
  "sel_profile_card_avatar = [cls ''profile-card-avatar'', elem ''img'']"

definition sel_profile_banner :: selector where
  "sel_profile_banner = [cls ''profile-banner'', elem ''img'']"

definition sel_timeline_item :: selector where
  "sel_timeline_item = [cls ''timeline-item'']"

definition sel_attachment_image :: selector where
  "sel_attachment_image = [Compound None [''attachment'', ''image''] None, elem ''img'']"

definition sel_retweet_header :: selector where
  "sel_retweet_header = [cls ''retweet-header'', elem ''div'']"

definition sel_replying_to :: selector where
  "sel_replying_to = [cls ''tweet-body'', cls ''replying-to'', elem ''a'']"

definition sel_tweet_content :: selector where
  "sel_tweet_content = [cls ''tweet-content'']"

definition sel_tweet_date :: selector where
  "sel_tweet_date = [cls ''tweet-date'', elem ''a'']"

definition sel_tweet_link :: selector where
  "sel_tweet_link = [cls ''tweet-link'']"

definition sel_photo_rail :: selector where
  "sel_photo_rail = [cls ''photo-rail-grid'', elem ''a'', elem ''img'']"

definition sel_result_avatar :: selector where
  "sel_result_avatar = [cls ''profile-result'', cls ''tweet-avatar'', elem ''img'']"

definition sel_fullname :: selector where
  "sel_fullname = [cls ''fullname'']"

definition sel_username :: selector where
  "sel_username = [cls ''username'']"

text \<open>\<open>convert_nitter_image_to_twitter(DOMAIN + img["src"])\<close>.\<close>

definition image_of :: "tag option \<Rightarrow> error + string" where
  "image_of img =
     bindE (getitem img ''src'') (\<lambda>src. Inr (convert_nitter_image_to_twitter (DOMAIN @ src)))"

text \<open>\<open>x.text.strip() if x else ""\<close>.\<close>

definition text_or_empty :: "tag option \<Rightarrow> string" where
  "text_or_empty x = (case x of None \<Rightarrow> [] | Some t \<Rightarrow> strip (tag_text t))"

text \<open>\<open>stat_cleaner(x.text.strip())\<close>.\<close>

definition stat_of :: "tag option \<Rightarrow> error + int" where
  "stat_of x = bindE (text_attr x) (\<lambda>t. stat_cleaner (Some (strip t)))"

text \<open>\<open>i.parent.text.strip() if i else "0"\<close>.\<close>

definition icon_count :: "tag option \<Rightarrow> error + string" where
  "icon_count i =
     (case i of None \<Rightarrow> Inr ''0''
      | Some t \<Rightarrow> bindE (text_attr (parent t)) (\<lambda>s. Inr (strip s)))"

text \<open>The body of the loop over the timeline items of a profile page.\<close>

definition tweet_data :: "tag \<Rightarrow> error + timeline_entry" where
  "tweet_data tweet =
     bindE (mapE (\<lambda>img. image_of (Some img)) (select sel_attachment_image tweet))
       (\<lambda>tweet_images.
     let retweeted_by = select_one sel_retweet_header tweet;
         replying_to = select_one sel_replying_to tweet
     in
     bindE (text_attr (select_one sel_tweet_date tweet)) (\<lambda>date.
     bindE (icon_count (select_one [cls ''icon-heart''] tweet)) (\<lambda>likes.
     bindE (icon_count (select_one [cls ''icon-comment''] tweet)) (\<lambda>comments.
     bindE (icon_count (select_one [cls ''icon-retweet''] tweet)) (\<lambda>retweets.
     bindE (case select_one sel_tweet_link tweet of None \<Rightarrow> Inr []
            | Some l \<Rightarrow> getitem (Some l) ''href'') (\<lambda>link.
     Inr \<lparr> t_content = text_or_empty (select_one sel_tweet_content tweet),
           t_date = strip date,
           t_likes = likes,
           t_comments = comments,
           t_retweets = retweets,
           t_tweet_link = link,
           t_images = tweet_images,
           t_retweeted_by = map_option (\<lambda>t. strip (tag_text t)) retweeted_by,
           t_is_retweet = (retweeted_by \<noteq> None),
           t_is_reply = (replying_to \<noteq> None),
           t_replying_to = map_option (\<lambda>t. strip (tag_text t)) replying_to \<rparr>))))))"

text \<open>The entries of the \<open>profile\<close> dictionary are evaluated in the order written.\<close>

definition profile_of :: "tag \<Rightarrow> error + profile_record" where
  "profile_of soup =
     bindE (text_attr (select_one sel_profile_card_fullname soup)) (\<lambda>fullname.
     bindE (text_attr (select_one sel_profile_card_username soup)) (\<lambda>uname.
     bindE (text_attr (select_one sel_profile_joindate soup)) (\<lambda>joined.
     bindE (stat_of (select_one (sel_stat ''posts'') soup)) (\<lambda>n_tweets.
     bindE (stat_of (select_one (sel_stat ''following'') soup)) (\<lambda>n_following.
     bindE (stat_of (select_one (sel_stat ''followers'') soup)) (\<lambda>n_followers.
     bindE (stat_of (select_one (sel_stat ''likes'') soup)) (\<lambda>n_likes.
     bindE (image_of (select_one sel_profile_card_avatar soup)) (\<lambda>avatar.
     bindE (case select_one sel_profile_banner soup of None \<Rightarrow> Inr []
            | Some b \<Rightarrow> image_of (Some b)) (\<lambda>banner.
     Inr \<lparr> p_full_name = strip fullname,
           p_username = username_cleaner (strip uname),
           p_bio = text_or_empty (select_one sel_profile_bio soup),
           p_location = text_or_empty (select_one sel_profile_location soup),
           p_join_date = strip (replace ''Joined'' [] (strip joined)),
           p_tweets = n_tweets,
           p_following = n_following,
           p_followers = n_followers,
           p_likes = n_likes,
           p_profile_image = avatar,
           p_banner_image = banner \<rparr>)))))))))"

definition extract_profile_contents :: "node list \<Rightarrow> error + profile_bundle" where
  "extract_profile_contents html =
     (let soup = BeautifulSoup html in
      bindE (profile_of soup) (\<lambda>prof.
      bindE (mapE tweet_data (select sel_timeline_item soup)) (\<lambda>tws.
      bindE (mapE (\<lambda>img. image_of (Some img)) (select sel_photo_rail soup)) (\<lambda>med.
      Inr \<lparr> profile = prof, tweets = tws, media = med \<rparr>))))"

text \<open>The body of the comprehension over the timeline items of a search page.\<close>

definition search_user_of :: "tag \<Rightarrow> error + search_user" where
  "search_user_of user =
     bindE (bindE (item0 (select sel_result_avatar user)) (\<lambda>img. image_of (Some img)))
       (\<lambda>avatar.
     bindE (text_attr (select_one sel_fullname user)) (\<lambda>fullname.
     bindE (text_attr (select_one sel_username user)) (\<lambda>uname.
     Inr \<lparr> u_profile_image_url = avatar,
           u_full_name = strip fullname,
           u_username = strip uname,
           u_bio = text_or_empty (select_one sel_tweet_content user) \<rparr>)))"

definition extract_search_contents :: "node list \<Rightarrow> error + search_user list" where
  "extract_search_contents html =
     (let soup = BeautifulSoup html in mapE search_user_of (select sel_timeline_item soup))"

section \<open>Page loads\<close>

text \<open>
  The browser is outside the program: \<open>driver.get\<close> and \<open>driver.page_source\<close> are
  parameters over a browser state \<open>'d\<close>, and each may raise. \<open>Exception m\<close> is an
  instance of \<open>Exception\<close> that prints as \<open>m\<close>; \<open>Interrupt m\<close> is one of the
  exceptions outside \<open>Exception\<close> (\<open>KeyboardInterrupt\<close>, \<open>SystemExit\<close>), which the
  handler \<open>except Exception\<close> lets through. What the program does to the outside is
  recorded as a list of events.
\<close>

datatype exn = Exception string | Interrupt string

datatype event = Get string | Sleep nat | PageSource | Print string

record 'd driver =
  driver_get :: "string \<Rightarrow> 'd \<Rightarrow> exn option \<times> 'd"
  driver_page_source :: "'d \<Rightarrow> (exn + string) \<times> 'd"

record 'd world =
  browser :: 'd
  events :: "event list"

definition emit :: "event \<Rightarrow> 'd world \<Rightarrow> 'd world" where
  "emit ev w = w\<lparr>events := events w @ [ev]\<rparr>"

text \<open>\<open>except Exception as e: print("Error:", e); return None\<close>.\<close>

definition except_Exception :: "exn \<Rightarrow> 'd world \<Rightarrow> (exn + string option) \<times> 'd world" where
  "except_Exception e w =
     (case e of Exception m \<Rightarrow> (Inr None, emit (Print (''Error: '' @ m)) w)
      | Interrupt m \<Rightarrow> (Inl e, w))"

text \<open>An argument that is \<open>None\<close> is formatted as the text \<open>None\<close>.\<close>

definition format_arg :: "string option \<Rightarrow> string" where
  "format_arg x = (case x of None \<Rightarrow> ''None'' | Some s \<Rightarrow> s)"

definition profile_url :: "string \<Rightarrow> string" where
  "profile_url username = DOMAIN @ ''/'' @ username @ ''/search''"

definition search_url :: "string \<Rightarrow> string option \<Rightarrow> string option \<Rightarrow> string" where
  "search_url query from_date to_date =
     DOMAIN @ ''/search?f=users&q='' @ query @ ''&since='' @ format_arg from_date
       @ ''&until='' @ format_arg to_date"

definition profile_html_contents ::
  "'d driver \<Rightarrow> string \<Rightarrow> 'd world \<Rightarrow> (exn + string option) \<times> 'd world" where
  "profile_html_contents drv username w =
     (let url = profile_url username in
      case driver_get drv url (browser w) of
        (Some e, b) \<Rightarrow> except_Exception e (emit (Get url) (w\<lparr>browser := b\<rparr>))
      | (None, b) \<Rightarrow>
          (let w1 = emit (Sleep 5) (emit (Get url) (w\<lparr>browser := b\<rparr>)) in
           case driver_page_source drv (browser w1) of
             (Inl e, b') \<Rightarrow> except_Exception e (emit PageSource (w1\<lparr>browser := b'\<rparr>))
           | (Inr src, b') \<Rightarrow> (Inr (Some src), emit PageSource (w1\<lparr>browser := b'\<rparr>))))"

definition search_html_contents ::
  "'d driver \<Rightarrow> string \<Rightarrow> string option \<Rightarrow> string option \<Rightarrow> 'd world
     \<Rightarrow> (exn + string option) \<times> 'd world" where
  "search_html_contents drv query from_date to_date w =
     (let url = search_url query from_date to_date in
      case driver_get drv url (browser w) of
        (Some e, b) \<Rightarrow> except_Exception e (emit (Get url) (w\<lparr>browser := b\<rparr>))
      | (None, b) \<Rightarrow>
          (let w1 = emit (Sleep 5) (emit (Get url) (w\<lparr>browser := b\<rparr>)) in
           case driver_page_source drv (browser w1) of
             (Inl e, b') \<Rightarrow> except_Exception e (emit PageSource (w1\<lparr>browser := b'\<rparr>))
           | (Inr src, b') \<Rightarrow> (Inr (Some src), emit PageSource (w1\<lparr>browser := b'\<rparr>))))"

section \<open>Conditions on inputs\<close>







section \<open>Example inputs\<close>

definition stat_item :: "string \<Rightarrow> string \<Rightarrow> node" where
  "stat_item c v = Element ''li'' [c] [] [Element ''span'' [''profile-stat-num''] [] [Text v]]"

text \<open>A profile page with every required element, no timeline item and no photo rail.\<close>

definition profile_page :: "string \<Rightarrow> node list" where
  "profile_page posts =
     [Element ''div'' [''profile-card''] []
       [Element ''a'' [''profile-card-avatar''] []
          [Element ''img'' [] [(''src'', ''/pic/a%2Fb.jpg'')] []],
        Element ''a'' [''profile-card-fullname''] [] [Text '' Ada L ''],
        Element ''a'' [''profile-card-username''] [] [Text ''@ada''],
        Element ''div'' [''profile-joindate''] []
          [Element ''span'' [] [] [Text ''Joined May 2010'']],
        Element ''ul'' [] []
          [stat_item ''posts'' posts, stat_item ''following'' ''7'',
           stat_item ''followers'' ''12,345'', stat_item ''likes'' []]]]"

text \<open>The same page without the full-name element.\<close>

definition nameless_page :: "node list" where
  "nameless_page =
     [Element ''div'' [''profile-card''] []
       [Element ''a'' [''profile-card-avatar''] []
          [Element ''img'' [] [(''src'', ''/pic/a%2Fb.jpg'')] []],
        Element ''a'' [''profile-card-username''] [] [Text ''@ada''],
        Element ''div'' [''profile-joindate''] []
          [Element ''span'' [] [] [Text ''Joined May 2010'']],
        Element ''ul'' [] []
          [stat_item ''posts'' ''3'', stat_item ''following'' ''7'',
           stat_item ''followers'' ''12,345'', stat_item ''likes'' []]]]"

definition result_item :: "string \<Rightarrow> node list \<Rightarrow> node" where
  "result_item src rest =
     Element ''div'' [''timeline-item''] []
       (Element ''div'' [''profile-result''] []
          [Element ''a'' [''tweet-avatar''] [] [Element ''img'' [] [(''src'', src)] []]]
        # rest)"

text \<open>A search page with two complete items.\<close>

definition search_page :: "node list" where
  "search_page =
     [result_item ''/pic/x.jpg''
        [Element ''a'' [''fullname''] [] [Text ''Ada''],
         Element ''a'' [''username''] [] [Text '' @ada '']],
      result_item ''/y.png''
        [Element ''a'' [''fullname''] [] [Text ''Bob''],
         Element ''a'' [''username''] [] [Text ''@bob''],
         Element ''div'' [''tweet-content''] [] [Text ''hi'']]]"


text \<open>
  A browser whose state is the number of calls it still answers: \<open>driver.get\<close> and
  \<open>page_source\<close> raise once the number is used up.
\<close>

definition test_driver :: "nat driver" where
  "test_driver =
     \<lparr> driver_get = (\<lambda>url d. if d = 0 then (Some (Exception ''timeout''), 0)
                              else (None, d - 1)),
       driver_page_source = (\<lambda>d. if d = 0 then (Inl (Exception ''session lost''), 0)
                                  else (Inr ''<html></html>'', d)) \<rparr>"

section \<open>Properties of the normalizers\<close>

subsection \<open>Replacing and trimming\<close>

lemma replace_single: "replace [x] [] s = filter (\<lambda>c. c \<noteq> x) s"
  by (induction s) (auto simp: startswith_def)

lemma replace_at_front:
  "old \<noteq> [] \<Longrightarrow> replace old new (old @ r) = new @ replace old new r"
  by (cases old) (simp_all add: startswith_def)

lemma replace_absent:
  "old \<noteq> [] \<Longrightarrow> \<not> sublist old s \<Longrightarrow> replace old new s = s"
proof (induction old new s rule: replace.induct)
  case (1 old new)
  then show ?case by simp
next
  case (2 old new c cs)
  have np: "\<not> startswith (c # cs) old"
  proof
    assume "startswith (c # cs) old"
    then have "prefix old (c # cs)" by (metis startswith_def take_is_prefix)
    then show False using 2(5) by (meson prefix_imp_sublist)
  qed
  have "\<not> sublist old cs" using 2(5) by (meson sublist_Cons_right)
  with 2 np show ?case by simp
qed

lemma ws_heads:
  "\<forall>w\<in>set whitespace. w \<noteq> [] \<and> hd w \<noteq> CHR ''@''"
  by code_simp


lemma ws_len_0:
  assumes "\<forall>w\<in>set ws. w \<noteq> [] \<and> hd w \<noteq> c"
  shows "ws_len ws (c # cs) = 0"
proof -
  have "\<not> startswith (c # cs) w" if "w \<in> set ws" for w
    using assms that by (cases w) (auto simp: startswith_def)
  then have "find (startswith (c # cs)) ws = None"
    by (simp add: find_None_iff)
  then show ?thesis by (simp add: ws_len_def)
qed



subsection \<open>Reading integers\<close>




text \<open>
  The separator U+001F is white space for \<open>str.strip\<close> but not for \<open>int\<close>: a count that
  holds one is refused. The Arabic-Indic digits U+0661, U+0662, U+0663 are read as 123.
\<close>

lemma stat_cleaner_separator_char:
  "stat_cleaner (Some [CHR '','', CHR 0x1F, CHR ''1'']) = Inl ValueError
   \<and> stat_cleaner (Some [CHR ''1'', CHR 0x1F]) = Inl ValueError"
  by code_simp

lemma py_int_unicode_digits:
  "py_int [CHR 0xD9, CHR 0xA1, CHR 0xD9, CHR 0xA2, CHR 0xD9, CHR 0xA3] = Inr 123"
proof -
  have d: "utf8_decode [CHR 0xD9, CHR 0xA1, CHR 0xD9, CHR 0xA2, CHR 0xD9, CHR 0xA3]
      = [0x661, 0x662, 0x663]"
    by (simp add: utf8_step_def code_point_def bv_def is_cont_def)
  have a: "map ascii_of [0x661, 0x662, 0x663] = ''123''"
    by (simp add: ascii_of_def uni_space_def uni_decimal_def decimal_zeros_def) code_simp
  have n: "\<not> list_all is_ascii [CHR 0xD9, CHR 0xA1, CHR 0xD9, CHR 0xA2, CHR 0xD9, CHR 0xA3]"
    by (simp add: is_ascii_def bv_def)
  have p: "py_int ''123'' = Inr 123" by code_simp
  have "to_ascii [CHR 0xD9, CHR 0xA1, CHR 0xD9, CHR 0xA2, CHR 0xD9, CHR 0xA3] = ''123''"
    unfolding to_ascii_def using n by (simp only: if_False d a)
  moreover have "to_ascii ''123'' = ''123''"
    by (simp add: to_ascii_def is_ascii_def bv_def)
  ultimately show ?thesis using p unfolding py_int_def by simp
qed

text \<open>
  C5. \<open>username_cleaner\<close> removes every \<open>@\<close> of its argument, wherever it stands: the
  result is the argument without its \<open>@\<close> characters. So \<open>@handle\<close> becomes
  \<open>handle\<close> and \<open>@a@b\<close> becomes \<open>ab\<close>.
\<close>

theorem username_cleaner_all_occurrences:
  "username_cleaner s = filter (\<lambda>c. c \<noteq> CHR ''@'') s
   \<and> username_cleaner ''@handle'' = ''handle''
   \<and> username_cleaner ''@a@b'' = ''ab''"
  unfolding username_cleaner_def replace_single by simp



subsection \<open>Percent-decoding keeps a plain ASCII prefix\<close>

lemma unquote_to_bytes_plain:
  "x \<noteq> CHR ''%'' \<Longrightarrow> unquote_to_bytes (x # r) = x # unquote_to_bytes r"
  by (cases "(x # r)" rule: unquote_to_bytes.cases) auto

lemma utf8_replace_ascii: "is_ascii x \<Longrightarrow> utf8_replace (x # bs) = x # utf8_replace bs"
  by (simp add: utf8_step_def is_ascii_def)

lemma unquoted_parts_run:
  "unquoted_parts t =
     utf8_replace (unquote_to_bytes (takeWhile is_ascii t))
     @ unquoted_parts (dropWhile is_ascii t)"
  by (cases t) auto

lemma unquoted_parts_plain:
  assumes "is_ascii x" "x \<noteq> CHR ''%''"
  shows "unquoted_parts (x # t) = x # unquoted_parts t"
proof -
  have "unquoted_parts (x # t) =
      utf8_replace (x # unquote_to_bytes (takeWhile is_ascii t))
      @ unquoted_parts (dropWhile is_ascii t)"
    using assms by (simp add: unquote_to_bytes_plain)
  also have "\<dots> = x # (utf8_replace (unquote_to_bytes (takeWhile is_ascii t))
      @ unquoted_parts (dropWhile is_ascii t))"
    using assms(1) by (simp only: utf8_replace_ascii append_Cons)
  finally show ?thesis using unquoted_parts_run [of t] by simp
qed

lemma unquoted_parts_prefix:
  "\<forall>c\<in>set a. is_ascii c \<and> c \<noteq> CHR ''%'' \<Longrightarrow>
     unquoted_parts (a @ s) = a @ unquoted_parts s"
  by (induction a) (simp_all add: unquoted_parts_plain del: unquoted_parts.simps)

lemma unquote_prefix:
  assumes "\<forall>c\<in>set a. is_ascii c \<and> c \<noteq> CHR ''%''"
  shows "unquote (a @ s) = a @ unquote s"
proof -
  have "(CHR ''%'' \<in> set (a @ s)) = (CHR ''%'' \<in> set s)" using assms by auto
  then show ?thesis using assms by (simp add: unquote_def unquoted_parts_prefix)
qed

subsection \<open>The image address\<close>

lemma cdn_plain: "\<forall>c\<in>set (TWITTER_IMG_DOMAIN @ ''/''). is_ascii c \<and> c \<noteq> CHR ''%''"
  by (simp add: TWITTER_IMG_DOMAIN_def is_ascii_def bv_def)

lemma cdn_not_mirror:
  "\<not> startswith ((TWITTER_IMG_DOMAIN @ ''/'') @ x) (DOMAIN @ ''/pic/'')"
  by (simp add: startswith_def TWITTER_IMG_DOMAIN_def DOMAIN_def)

lemma convert_at_prefix:
  "convert_nitter_image_to_twitter ((DOMAIN @ ''/pic/'') @ r) =
     (TWITTER_IMG_DOMAIN @ ''/'')
     @ unquote (replace (DOMAIN @ ''/pic/'') (TWITTER_IMG_DOMAIN @ ''/'') r)"
proof -
  have "startswith ((DOMAIN @ ''/pic/'') @ r) (DOMAIN @ ''/pic/'')"
    by (simp add: startswith_def)
  moreover have
    "replace (DOMAIN @ ''/pic/'') (TWITTER_IMG_DOMAIN @ ''/'') ((DOMAIN @ ''/pic/'') @ r)
      = (TWITTER_IMG_DOMAIN @ ''/'')
        @ replace (DOMAIN @ ''/pic/'') (TWITTER_IMG_DOMAIN @ ''/'') r"
    by (rule replace_at_front) simp
  ultimately show ?thesis
    using unquote_prefix [OF cdn_plain]
    by (simp only: convert_nitter_image_to_twitter_def if_True)
qed

text \<open>
  An address outside the image proxy is returned as it is; one under it whose remainder
  holds no further occurrence of the proxy prefix becomes the CDN domain, a slash and the
  percent-decoded remainder.
\<close>

lemma convert_other:
  "\<not> startswith u (DOMAIN @ ''/pic/'') \<Longrightarrow> convert_nitter_image_to_twitter u = u"
  by (simp add: convert_nitter_image_to_twitter_def)

lemma convert_single_prefix:
  assumes "\<not> sublist (DOMAIN @ ''/pic/'') r"
  shows "convert_nitter_image_to_twitter ((DOMAIN @ ''/pic/'') @ r) =
     (TWITTER_IMG_DOMAIN @ ''/'') @ unquote r"
proof -
  have "replace (DOMAIN @ ''/pic/'') (TWITTER_IMG_DOMAIN @ ''/'') r = r"
    using assms by (intro replace_absent) simp_all
  then show ?thesis by (simp only: convert_at_prefix)
qed

lemma convert_spec_example:
  "convert_nitter_image_to_twitter
     ''https://nitter.net/pic/https%3A%2F%2Fpbs.twimg.com%2Ffoo.jpg''
   = ''https://pbs.twimg.com/https://pbs.twimg.com/foo.jpg''"
  by code_simp

text \<open>
  C1. At the address \<open>https://nitter.net/pic/https://nitter.net/pic/x\<close>, which begins
  with the proxy prefix, the result is not the CDN domain followed by the decoded
  remainder: the occurrence of the prefix inside the remainder is replaced as well.
\<close>

theorem convert_replaces_inner_prefix:
  "convert_nitter_image_to_twitter ''https://nitter.net/pic/https://nitter.net/pic/x''
     = ''https://pbs.twimg.com/https://pbs.twimg.com/x''
   \<and> (TWITTER_IMG_DOMAIN @ ''/'') @ unquote ''https://nitter.net/pic/x''
     = ''https://pbs.twimg.com/https://nitter.net/pic/x''"
  by code_simp

text \<open>
  C9. \<open>convert_nitter_image_to_twitter\<close> is idempotent: applied to its own result, for
  any address, it returns that result.
\<close>

theorem convert_idempotent:
  "convert_nitter_image_to_twitter (convert_nitter_image_to_twitter u) =
     convert_nitter_image_to_twitter u"
proof (cases "startswith u (DOMAIN @ ''/pic/'')")
  case True
  then have "u = (DOMAIN @ ''/pic/'') @ drop (length (DOMAIN @ ''/pic/'')) u"
    by (metis append_take_drop_id startswith_def)
  then obtain r where u: "u = (DOMAIN @ ''/pic/'') @ r" ..
  show ?thesis
    unfolding u convert_at_prefix
    using cdn_not_mirror
    by (subst (1) convert_nitter_image_to_twitter_def) (simp only: if_False)
next
  case False
  then show ?thesis by (simp add: convert_nitter_image_to_twitter_def)
qed

section \<open>Properties of the page loads\<close>

text \<open>
  C4. When neither date is given, the address that \<open>search_html_contents\<close> builds is the
  domain followed by \<open>/search?f=users&q=\<close>, the query, and \<open>&since=None&until=None\<close>: the
  two parameters are present with the text \<open>None\<close>. It is the address the browser is sent
  to.
\<close>

theorem search_url_absent_dates:
  "search_url q None None =
     ''https://nitter.net/search?f=users&q='' @ q @ ''&since=None&until=None''
   \<and> prefix
       (events w @
          [Get (''https://nitter.net/search?f=users&q='' @ q @ ''&since=None&until=None'')])
       (events (snd (search_html_contents drv q None None w)))"
  by (auto simp: search_html_contents_def search_url_def format_arg_def DOMAIN_def
        except_Exception_def emit_def Let_def
      split: prod.splits option.splits sum.splits exn.splits)

text \<open>
  C3. When \<open>driver.get\<close> or \<open>driver.page_source\<close> raises an \<open>Exception\<close>, both page
  loads return \<open>None\<close> instead of raising, print the fault after \<open>Error:\<close>, and call
  \<open>driver.get\<close> once only; when nothing is raised they return the page source.
\<close>

theorem page_load_outcomes:
  "(driver_get drv (profile_url u) (browser w) = (Some (Exception m), b) \<longrightarrow>
      profile_html_contents drv u w =
        (Inr None,
         w\<lparr>browser := b,
           events := events w @ [Get (profile_url u), Print (''Error: '' @ m)]\<rparr>))
   \<and> (driver_get drv (profile_url u) (browser w) = (None, b)
      \<and> driver_page_source drv b = (Inl (Exception m), b') \<longrightarrow>
      profile_html_contents drv u w =
        (Inr None,
         w\<lparr>browser := b',
           events := events w @
             [Get (profile_url u), Sleep 5, PageSource, Print (''Error: '' @ m)]\<rparr>))
   \<and> (driver_get drv (profile_url u) (browser w) = (None, b)
      \<and> driver_page_source drv b = (Inr src, b') \<longrightarrow>
      profile_html_contents drv u w =
        (Inr (Some src),
         w\<lparr>browser := b',
           events := events w @ [Get (profile_url u), Sleep 5, PageSource]\<rparr>))
   \<and> (driver_get drv (search_url q fd td) (browser w) = (Some (Exception m), b) \<longrightarrow>
      search_html_contents drv q fd td w =
        (Inr None,
         w\<lparr>browser := b,
           events := events w @ [Get (search_url q fd td), Print (''Error: '' @ m)]\<rparr>))
   \<and> (driver_get drv (search_url q fd td) (browser w) = (None, b)
      \<and> driver_page_source drv b = (Inl (Exception m), b') \<longrightarrow>
      search_html_contents drv q fd td w =
        (Inr None,
         w\<lparr>browser := b',
           events := events w @
             [Get (search_url q fd td), Sleep 5, PageSource, Print (''Error: '' @ m)]\<rparr>))
   \<and> (driver_get drv (search_url q fd td) (browser w) = (None, b)
      \<and> driver_page_source drv b = (Inr src, b') \<longrightarrow>
      search_html_contents drv q fd td w =
        (Inr (Some src),
         w\<lparr>browser := b',
           events := events w @ [Get (search_url q fd td), Sleep 5, PageSource]\<rparr>))"
  by (simp add: profile_html_contents_def search_html_contents_def except_Exception_def
        emit_def Let_def)

theorem page_load_outcomes_witness:
  "profile_html_contents test_driver ''ada'' \<lparr>browser = 0, events = []\<rparr> =
     (Inr None,
      \<lparr>browser = 0,
       events = [Get ''https://nitter.net/ada/search'', Print ''Error: timeout'']\<rparr>)
   \<and> profile_html_contents test_driver ''ada'' \<lparr>browser = 1, events = []\<rparr> =
     (Inr None,
      \<lparr>browser = 0,
       events = [Get ''https://nitter.net/ada/search'', Sleep 5, PageSource,
                 Print ''Error: session lost'']\<rparr>)
   \<and> profile_html_contents test_driver ''ada'' \<lparr>browser = 2, events = []\<rparr> =
     (Inr (Some ''<html></html>''),
      \<lparr>browser = 1,
       events = [Get ''https://nitter.net/ada/search'', Sleep 5, PageSource]\<rparr>)
   \<and> search_html_contents test_driver ''ada'' None None \<lparr>browser = 0, events = []\<rparr> =
     (Inr None,
      \<lparr>browser = 0,
       events = [Get ''https://nitter.net/search?f=users&q=ada&since=None&until=None'',
                 Print ''Error: timeout'']\<rparr>)
   \<and> search_html_contents test_driver ''ada'' None None \<lparr>browser = 1, events = []\<rparr> =
     (Inr None,
      \<lparr>browser = 0,
       events = [Get ''https://nitter.net/search?f=users&q=ada&since=None&until=None'',
                 Sleep 5, PageSource, Print ''Error: session lost'']\<rparr>)
   \<and> search_html_contents test_driver ''ada'' None None \<lparr>browser = 2, events = []\<rparr> =
     (Inr (Some ''<html></html>''),
      \<lparr>browser = 1,
       events = [Get ''https://nitter.net/search?f=users&q=ada&since=None&until=None'',
                 Sleep 5, PageSource]\<rparr>)"
  using
    page_load_outcomes [where drv = test_driver and u = "''ada''" and q = "''ada''"
      and fd = None and td = None and w = "\<lparr>browser = 0, events = []\<rparr>"
      and m = "''timeout''" and b = 0]
    page_load_outcomes [where drv = test_driver and u = "''ada''" and q = "''ada''"
      and fd = None and td = None and w = "\<lparr>browser = 1, events = []\<rparr>"
      and m = "''session lost''" and b = 0 and b' = 0]
    page_load_outcomes [where drv = test_driver and u = "''ada''" and q = "''ada''"
      and fd = None and td = None and w = "\<lparr>browser = 2, events = []\<rparr>"
      and src = "''<html></html>''" and b = 1 and b' = 1]
  by (simp add: test_driver_def profile_url_def search_url_def format_arg_def DOMAIN_def)

section \<open>Properties of the extractors\<close>


lemma bindE_Inl: "bindE (Inl e) f = Inl e"
  by (simp add: bindE_def)

lemma bindE_eq_Inr: "bindE m f = Inr y \<Longrightarrow> \<exists>x. m = Inr x \<and> f x = Inr y"
  by (cases m) (simp_all add: bindE_def)

lemma mapE_list_all2:
  "mapE f xs = Inr ys \<Longrightarrow> list_all2 (\<lambda>x y. f x = Inr y) xs ys"
proof (induction xs arbitrary: ys)
  case Nil
  then show ?case by simp
next
  case (Cons x xs)
  from Cons.prems obtain y where y: "f x = Inr y"
    and r: "bindE (mapE f xs) (\<lambda>zs. Inr (y # zs)) = Inr ys"
    by (auto dest: bindE_eq_Inr)
  from r obtain zs where zs: "mapE f xs = Inr zs" "ys = y # zs"
    by (auto dest: bindE_eq_Inr)
  with y Cons.IH show ?case by simp
qed





text \<open>
  C2. When the page has no element of class \<open>profile-card-fullname\<close>, the profile
  extraction does not return a bundle: it fails on the first entry of the profile, with
  the \<open>AttributeError\<close> of reading \<open>.text\<close> from \<open>None\<close>.
\<close>

theorem profile_without_fullname_fails:
  "select_one sel_profile_card_fullname (BeautifulSoup html) = None \<Longrightarrow>
     extract_profile_contents html = Inl AttributeError"
  by (simp add: extract_profile_contents_def profile_of_def text_attr_def bindE_def)

theorem profile_without_fullname_fails_witness:
  "select_one sel_profile_card_fullname (BeautifulSoup nameless_page) = None
   \<and> extract_profile_contents nameless_page = Inl AttributeError"
proof -
  have h: "select_one sel_profile_card_fullname (BeautifulSoup nameless_page) = None"
    by code_simp
  from h profile_without_fullname_fails [OF h] show ?thesis by (rule conjI)
qed

subsection \<open>Profile pages without timeline items\<close>





subsection \<open>Search pages\<close>


lemma search_user_of_username:
  assumes "search_user_of user = Inr r"
  shows "\<exists>e. select_one sel_username user = Some e \<and> u_username r = strip (tag_text e)"
proof -
  from assms obtain avatar fullname uname where
    u: "text_attr (select_one sel_username user) = Inr uname"
    and r: "r = \<lparr> u_profile_image_url = avatar, u_full_name = strip fullname,
                  u_username = strip uname,
                  u_bio = text_or_empty (select_one sel_tweet_content user) \<rparr>"
    unfolding search_user_of_def by (auto dest!: bindE_eq_Inr)
  from u obtain e where "select_one sel_username user = Some e" "uname = tag_text e"
    by (cases "select_one sel_username user") (auto simp: text_attr_def)
  with r show ?thesis by simp
qed




subsection \<open>The username fields\<close>

lemma ws_no_at: "\<forall>w\<in>set (map rev whitespace). CHR ''@'' \<notin> set w"
  by code_simp

lemma strip_front_keeps_last:
  assumes "\<forall>w\<in>set ws. c \<notin> set w"
  shows "\<exists>y. strip_front ws (x @ [c]) = y @ [c]"
proof (induction x rule: length_induct)
  case (1 x)
  obtain a cs where acs: "x @ [c] = a # cs" by (cases "x @ [c]") auto
  show ?case
  proof (cases "ws_len ws (x @ [c]) = 0")
    case True
    then have "strip_front ws (x @ [c]) = x @ [c]" by (simp add: acs)
    then show ?thesis by blast
  next
    case False
    then obtain w where w: "find (startswith (x @ [c])) ws = Some w"
      and n: "ws_len ws (x @ [c]) = length w"
      by (auto simp: ws_len_def split: option.splits)
    from w have win: "w \<in> set ws" and sw: "startswith (x @ [c]) w"
      by (auto simp: find_Some_iff)
    from False n have pos: "0 < length w" by simp
    have le: "length w \<le> length x"
    proof (rule ccontr)
      assume "\<not> length w \<le> length x"
      then have "take (length w) (x @ [c]) = x @ [c]" by simp
      then have "w = x @ [c]" using sw by (simp add: startswith_def)
      then show False using assms win by auto
    qed
    have "strip_front ws (x @ [c]) = strip_front ws (drop (length w - 1) cs)"
      using False n by (simp add: acs)
    also have "drop (length w - 1) cs = drop (length w) (a # cs)"
      using pos by (cases "length w") simp_all
    also have "\<dots> = drop (length w) x @ [c]" using le by (simp flip: acs)
    finally have e: "strip_front ws (x @ [c]) = strip_front ws (drop (length w) x @ [c])" .
    from pos le have "length x - length w < length x" by arith
    then have "length (drop (length w) x) < length x" by simp
    then obtain y where "strip_front ws (drop (length w) x @ [c]) = y @ [c]"
      using 1 by blast
    with e show ?thesis by simp
  qed
qed

text \<open>Trimming keeps an \<open>@\<close> at the front.\<close>

lemma strip_keeps_sigil: "\<exists>t. strip (CHR ''@'' # r) = CHR ''@'' # t"
proof -
  have "ws_len whitespace (CHR ''@'' # r) = 0"
    using ws_heads by (intro ws_len_0) auto
  then have l: "lstrip (CHR ''@'' # r) = CHR ''@'' # r" by (simp add: lstrip_def)
  obtain y where "strip_front (map rev whitespace) (rev r @ [CHR ''@'']) = y @ [CHR ''@'']"
    using strip_front_keeps_last [OF ws_no_at] by blast
  then have "rstrip (CHR ''@'' # r) = CHR ''@'' # rev y" by (simp add: rstrip_def)
  then show ?thesis by (simp add: strip_def l)
qed

lemma profile_of_username:
  assumes "profile_of soup = Inr p"
  shows "\<exists>e. select_one sel_profile_card_username soup = Some e
     \<and> p_username p = username_cleaner (strip (tag_text e))"
proof -
  from assms obtain fullname where
    "text_attr (select_one sel_profile_card_fullname soup) = Inr fullname"
    and r1: "bindE (text_attr (select_one sel_profile_card_username soup)) (\<lambda>uname.
     bindE (text_attr (select_one sel_profile_joindate soup)) (\<lambda>joined.
     bindE (stat_of (select_one (sel_stat ''posts'') soup)) (\<lambda>n_tweets.
     bindE (stat_of (select_one (sel_stat ''following'') soup)) (\<lambda>n_following.
     bindE (stat_of (select_one (sel_stat ''followers'') soup)) (\<lambda>n_followers.
     bindE (stat_of (select_one (sel_stat ''likes'') soup)) (\<lambda>n_likes.
     bindE (image_of (select_one sel_profile_card_avatar soup)) (\<lambda>avatar.
     bindE (case select_one sel_profile_banner soup of None \<Rightarrow> Inr []
            | Some b \<Rightarrow> image_of (Some b)) (\<lambda>banner.
     Inr \<lparr> p_full_name = strip fullname,
           p_username = username_cleaner (strip uname),
           p_bio = text_or_empty (select_one sel_profile_bio soup),
           p_location = text_or_empty (select_one sel_profile_location soup),
           p_join_date = strip (replace ''Joined'' [] (strip joined)),
           p_tweets = n_tweets,
           p_following = n_following,
           p_followers = n_followers,
           p_likes = n_likes,
           p_profile_image = avatar,
           p_banner_image = banner \<rparr>)))))))) = Inr p"
    unfolding profile_of_def by (blast dest: bindE_eq_Inr)
  from r1 obtain uname where
    u: "text_attr (select_one sel_profile_card_username soup) = Inr uname"
    and r2: "bindE (text_attr (select_one sel_profile_joindate soup)) (\<lambda>joined.
     bindE (stat_of (select_one (sel_stat ''posts'') soup)) (\<lambda>n_tweets.
     bindE (stat_of (select_one (sel_stat ''following'') soup)) (\<lambda>n_following.
     bindE (stat_of (select_one (sel_stat ''followers'') soup)) (\<lambda>n_followers.
     bindE (stat_of (select_one (sel_stat ''likes'') soup)) (\<lambda>n_likes.
     bindE (image_of (select_one sel_profile_card_avatar soup)) (\<lambda>avatar.
     bindE (case select_one sel_profile_banner soup of None \<Rightarrow> Inr []
            | Some b \<Rightarrow> image_of (Some b)) (\<lambda>banner.
     Inr \<lparr> p_full_name = strip fullname,
           p_username = username_cleaner (strip uname),
           p_bio = text_or_empty (select_one sel_profile_bio soup),
           p_location = text_or_empty (select_one sel_profile_location soup),
           p_join_date = strip (replace ''Joined'' [] (strip joined)),
           p_tweets = n_tweets,
           p_following = n_following,
           p_followers = n_followers,
           p_likes = n_likes,
           p_profile_image = avatar,
           p_banner_image = banner \<rparr>))))))) = Inr p"
    by (blast dest: bindE_eq_Inr)
  from r2 have "p_username p = username_cleaner (strip uname)"
    by (auto dest!: bindE_eq_Inr)
  moreover from u obtain e where
    "select_one sel_profile_card_username soup = Some e" "uname = tag_text e"
    by (cases "select_one sel_profile_card_username soup") (auto simp: text_attr_def)
  ultimately show ?thesis by simp
qed

text \<open>
  C10. In every record that the search extraction returns, the username is the trimmed
  text of the item's username element, with no \<open>@\<close> removed (trimming keeps an \<open>@\<close> at
  the front); in the profile that the profile extraction returns, the username is the
  trimmed text passed through \<open>username_cleaner\<close>.
\<close>

theorem search_username_not_cleaned:
  "(extract_search_contents html = Inr us \<longrightarrow>
      list_all2
        (\<lambda>item u. \<exists>e. select_one sel_username item = Some e
                       \<and> u_username u = strip (tag_text e))
        (select sel_timeline_item (BeautifulSoup html)) us)
   \<and> (extract_profile_contents html' = Inr b \<longrightarrow>
      (\<exists>e. select_one sel_profile_card_username (BeautifulSoup html') = Some e
           \<and> p_username (profile b) = username_cleaner (strip (tag_text e))))
   \<and> (\<exists>t. strip (CHR ''@'' # r) = CHR ''@'' # t)"
proof (intro conjI impI)
  assume "extract_search_contents html = Inr us"
  then have "list_all2 (\<lambda>item u. search_user_of item = Inr u)
      (select sel_timeline_item (BeautifulSoup html)) us"
    by (simp add: extract_search_contents_def mapE_list_all2)
  then show "list_all2
        (\<lambda>item u. \<exists>e. select_one sel_username item = Some e
                       \<and> u_username u = strip (tag_text e))
        (select sel_timeline_item (BeautifulSoup html)) us"
    by (rule list_all2_mono) (rule search_user_of_username)
next
  assume "extract_profile_contents html' = Inr b"
  then obtain p where p: "profile_of (BeautifulSoup html') = Inr p"
    and b: "profile b = p"
    unfolding extract_profile_contents_def Let_def by (auto dest!: bindE_eq_Inr)
  show "\<exists>e. select_one sel_profile_card_username (BeautifulSoup html') = Some e
           \<and> p_username (profile b) = username_cleaner (strip (tag_text e))"
    using profile_of_username [OF p] b by simp
next
  show "\<exists>t. strip (CHR ''@'' # r) = CHR ''@'' # t" by (rule strip_keeps_sigil)
qed

theorem search_username_not_cleaned_witness:
  "extract_search_contents search_page =
     Inr [\<lparr>u_profile_image_url = ''https://pbs.twimg.com/x.jpg'', u_full_name = ''Ada'',
            u_username = ''@ada'', u_bio = []\<rparr>,
          \<lparr>u_profile_image_url = ''https://nitter.net/y.png'', u_full_name = ''Bob'',
            u_username = ''@bob'', u_bio = ''hi''\<rparr>]
   \<and> list_all2
        (\<lambda>item u. \<exists>e. select_one sel_username item = Some e
                       \<and> u_username u = strip (tag_text e))
        (select sel_timeline_item (BeautifulSoup search_page))
        [\<lparr>u_profile_image_url = ''https://pbs.twimg.com/x.jpg'', u_full_name = ''Ada'',
            u_username = ''@ada'', u_bio = []\<rparr>,
          \<lparr>u_profile_image_url = ''https://nitter.net/y.png'', u_full_name = ''Bob'',
            u_username = ''@bob'', u_bio = ''hi''\<rparr>]
   \<and> extract_profile_contents (profile_page ''1,024'') =
       Inr \<lparr>profile =
              \<lparr>p_full_name = ''Ada L'', p_username = ''ada'', p_bio = [],
               p_location = [], p_join_date = ''May 2010'', p_tweets = 1024,
               p_following = 7, p_followers = 12345, p_likes = 0,
               p_profile_image = ''https://pbs.twimg.com/a/b.jpg'',
               p_banner_image = []\<rparr>,
            tweets = [], media = []\<rparr>
   \<and> (\<exists>e. select_one sel_profile_card_username (BeautifulSoup (profile_page ''1,024''))
             = Some e
          \<and> ''ada'' = username_cleaner (strip (tag_text e)))"
proof -
  have s: "extract_search_contents search_page =
     Inr [\<lparr>u_profile_image_url = ''https://pbs.twimg.com/x.jpg'', u_full_name = ''Ada'',
            u_username = ''@ada'', u_bio = []\<rparr>,
          \<lparr>u_profile_image_url = ''https://nitter.net/y.png'', u_full_name = ''Bob'',
            u_username = ''@bob'', u_bio = ''hi''\<rparr>]"
    by code_simp
  have p: "extract_profile_contents (profile_page ''1,024'') =
       Inr \<lparr>profile =
              \<lparr>p_full_name = ''Ada L'', p_username = ''ada'', p_bio = [],
               p_location = [], p_join_date = ''May 2010'', p_tweets = 1024,
               p_following = 7, p_followers = 12345, p_likes = 0,
               p_profile_image = ''https://pbs.twimg.com/a/b.jpg'',
               p_banner_image = []\<rparr>,
            tweets = [], media = []\<rparr>"
    by code_simp
  note t = search_username_not_cleaned [of search_page _ "profile_page ''1,024''"]
  from t [THEN conjunct1, THEN mp, OF s] t [THEN conjunct2, THEN conjunct1, THEN mp, OF p]
  show ?thesis using s p by simp
qed

end
